theory Spec2Isabelle
  imports Main "HOL-Library.Word" "HOL-Library.Char_ord" "HOL-Library.List_Lexorder"
    "HOL-Library.Multiset"
begin

section \<open>The OpenCL MapPairs kernel generator of the SkePU precompiler\<close>

text \<open>
  This theory embeds \<^verbatim>\<open>createMapPairsKernelProgram_CL\<close> of
  \<^verbatim>\<open>src/skepu-tool/mappairs_cl.cpp\<close>, the kernel template it fills and the host wrapper
  class it emits, and proves properties of the generated text and of the generated code.
\<close>

subsection \<open>Skeleton metadata\<close>

text \<open>
  The declarations of \<^verbatim>\<open>UserFunction\<close>, its parameter classes and \<^verbatim>\<open>ContainerType\<close> live in
  headers; the fields below are the ones the generator reads, the constructors of
  \<^verbatim>\<open>ContainerType\<close> are the cases of the generator's \<^verbatim>\<open>switch\<close>. The counts
  \<^verbatim>\<open>Varity\<close> and \<^verbatim>\<open>Harity\<close> and the counter \<^verbatim>\<open>ctr\<close> are only compared and printed:
  they are natural numbers. The index arithmetic of the generated kernel is on machine
  words. The fields \<^verbatim>\<open>name\<close> and \<^verbatim>\<open>definition\<close> of a user constant are
  \<open>const_name\<close> and \<open>definition_text\<close> here.
\<close>

datatype ContainerType = Vector | Matrix | SparseMatrix | MatRow | Tensor3 | Tensor4

record Param =
  name :: string
  resolvedTypeName :: string

record RandomAccessParam = Param +
  containerType :: ContainerType

record 'ut UserFunction =
  uniqueName :: string
  resolvedReturnTypeName :: string
  indexed1D :: bool
  indexed2D :: bool
  requiresDoublePrecision :: bool
  Varity :: nat
  elwiseParams :: "Param list"
  anyContainerParams :: "RandomAccessParam list"
  anyScalarParams :: "Param list"
  ReferencedUTs :: "'ut list"

record UserConstant =
  const_name :: string
  definition_text :: string
  typeName :: string

text \<open>
  What the generator calls but this file of the repository does not define: the methods
  \<^verbatim>\<open>TypeNameOpenCL\<close> and \<^verbatim>\<open>TypeNameHost\<close> of a container parameter, the proxy
  generators of the six container kinds, the code generators for user types and user
  functions, the predefined kernel types and \<^verbatim>\<open>transformToCXXIdentifier\<close>; the
  placeholder constants \<^verbatim>\<open>PH_...\<close>; and \<^verbatim>\<open>replaceTextInString\<close>. They are parameters
  of the model: the first group is the record \<open>Externals\<close>, the placeholders are the
  record \<open>Placeholders\<close>, and \<^verbatim>\<open>replaceTextInString\<close> is an argument of the functions
  that call it.
\<close>

record 'ut Externals =
  TypeNameOpenCL :: "RandomAccessParam \<Rightarrow> string"
  TypeNameHost :: "RandomAccessParam \<Rightarrow> string"
  generateOpenCLVectorProxy :: "string \<Rightarrow> string"
  generateOpenCLMatrixProxy :: "string \<Rightarrow> string"
  generateOpenCLSparseMatrixProxy :: "string \<Rightarrow> string"
  generateOpenCLMatrixRowProxy :: "string \<Rightarrow> string"
  generateOpenCLTensor3Proxy :: "string \<Rightarrow> string"
  generateOpenCLTensor4Proxy :: "string \<Rightarrow> string"
  generateUserTypeCode_CL :: "'ut \<Rightarrow> string"
  generateUserFunctionCode_CL :: "'ut UserFunction \<Rightarrow> string"
  KernelPredefinedTypes_CL :: string
  transformToCXXIdentifier :: "string \<Rightarrow> string"

record Placeholders =
  PH_MapResultType :: string
  PH_KernelName :: string
  PH_MapFuncName :: string
  PH_KernelParams :: string
  PH_MapParams :: string
  PH_IndexInitializer :: string

subsection \<open>The string streams of the generator\<close>

text \<open>
  \<^verbatim>\<open>std::set<std::string>\<close> iterates its elements in ascending order without duplicates:
  it is modelled by its sorted duplicate-free sequence, \<^verbatim>\<open>insert\<close> keeping an element that
  is already there. \<^verbatim>\<open>std::map<ContainerType, std::set<std::string>>\<close> with
  \<^verbatim>\<open>operator[]\<close> is a function from the kind to the set, empty by default.
\<close>

definition set_insert :: "string \<Rightarrow> string list \<Rightarrow> string list" where
  "set_insert x xs = (if x \<in> set xs then xs else insort x xs)"

record streams =
  SSMapFuncParams :: string
  SSKernelParamList :: string
  SSHostKernelParamList :: string
  SSKernelArgs :: string
  SSProxyInitializer :: string
  SSProxyInitializerInner :: string
  indexInitializer :: string
  containerProxyTypes :: "ContainerType \<Rightarrow> string list"
  first :: bool
  ctr :: nat

definition init_streams :: streams where
  "init_streams = \<lparr>SSMapFuncParams = [], SSKernelParamList = [], SSHostKernelParamList = [],
     SSKernelArgs = [], SSProxyInitializer = [], SSProxyInitializerInner = [],
     indexInitializer = [], containerProxyTypes = (\<lambda>_. []), first = True, ctr = 0\<rparr>"

text \<open>Lines 88 to 99: the index argument.\<close>

definition index_step :: "'ut UserFunction \<Rightarrow> streams \<Rightarrow> streams" where
  "index_step mapFunc s =
     (if indexed1D mapFunc then
        s\<lparr>SSMapFuncParams := SSMapFuncParams s @ ''index'',
          indexInitializer := ''index1_t index = { .i = base + i };'',
          first := False\<rparr>
      else if indexed2D mapFunc then
        s\<lparr>SSMapFuncParams := SSMapFuncParams s @ ''index'',
          indexInitializer :=
            ''index2_t index = { .row = (base + i) / w, .col = (base + i) % w };'',
          first := False\<rparr>
      else s)"

text \<open>Lines 102 to 113: one round of the loop over the elementwise parameters.\<close>

definition elwise_step :: "'ut UserFunction \<Rightarrow> streams \<Rightarrow> Param \<Rightarrow> streams" where
  "elwise_step mapFunc s param =
     s\<lparr>SSMapFuncParams :=
         SSMapFuncParams s @ (if \<not> first s then '', '' else []) @ name param
           @ (if ctr s < Varity mapFunc then ''[i / Hsize]'' else ''[i % Hsize]''),
       SSKernelParamList :=
         SSKernelParamList s @ ''__global '' @ resolvedTypeName param @ '' *'' @ name param
           @ '', '',
       SSHostKernelParamList :=
         SSHostKernelParamList s @ ''skepu::backend::DeviceMemPointer_CL<''
           @ resolvedTypeName param @ ''> *'' @ name param @ '', '',
       SSKernelArgs := SSKernelArgs s @ name param @ ''->getDeviceDataPointer(), '',
       ctr := Suc (ctr s),
       first := False\<rparr>"

text \<open>
  Lines 115 to 182: one round of the loop over the container parameters. The three texts a
  round appends for the kind of the parameter are the three functions below, one case per
  case of the \<^verbatim>\<open>switch\<close>; \<open>cname\<close> is the local \<^verbatim>\<open>name\<close>.
\<close>

definition cname :: "RandomAccessParam \<Rightarrow> string" where
  "cname param = ''skepu_container_'' @ name param"

definition container_kernel_params :: "RandomAccessParam \<Rightarrow> string" where
  "container_kernel_params param =
     (case containerType param of
        Vector \<Rightarrow>
          ''__global '' @ resolvedTypeName param @ '' *'' @ cname param
            @ '', size_t skepu_size_'' @ name param @ '', ''
      | Matrix \<Rightarrow>
          ''__global '' @ resolvedTypeName param @ '' *'' @ cname param
            @ '', size_t skepu_rows_'' @ name param @ '', size_t skepu_cols_'' @ name param
            @ '', ''
      | MatRow \<Rightarrow>
          ''__global '' @ resolvedTypeName param @ '' *'' @ cname param
            @ '', size_t skepu_cols_'' @ name param @ '', ''
      | Tensor3 \<Rightarrow>
          ''__global '' @ resolvedTypeName param @ '' *'' @ cname param @ '', ''
            @ ''size_t skepu_size_i_'' @ name param @ '', size_t skepu_size_j_'' @ name param
            @ '', size_t skepu_size_k_'' @ name param @ '', ''
      | Tensor4 \<Rightarrow>
          ''__global '' @ resolvedTypeName param @ '' *'' @ cname param @ '', ''
            @ ''size_t skepu_size_i_'' @ name param @ '', size_t skepu_size_j_'' @ name param
            @ '', size_t skepu_size_k_'' @ name param @ '', size_t skepu_size_l_''
            @ name param @ '', ''
      | SparseMatrix \<Rightarrow>
          ''__global '' @ resolvedTypeName param @ '' *'' @ cname param @ '', ''
            @ ''__global size_t *'' @ name param @ ''_row_pointers, ''
            @ ''__global size_t *'' @ name param @ ''_col_indices, ''
            @ ''size_t skepu_size_'' @ name param @ '', '')"

definition container_kernel_args :: "RandomAccessParam \<Rightarrow> string" where
  "container_kernel_args param =
     (case containerType param of
        Vector \<Rightarrow>
          ''std::get<1>('' @ cname param @ '')->getDeviceDataPointer(), std::get<0>(''
            @ cname param @ '')->size(), ''
      | Matrix \<Rightarrow>
          ''std::get<1>('' @ cname param @ '')->getDeviceDataPointer(), std::get<0>(''
            @ cname param @ '')->total_rows(), std::get<0>('' @ cname param
            @ '')->total_cols(), ''
      | MatRow \<Rightarrow>
          ''std::get<1>('' @ cname param @ '')->getDeviceDataPointer(), std::get<0>(''
            @ cname param @ '')->total_cols(), ''
      | Tensor3 \<Rightarrow>
          ''std::get<1>('' @ cname param @ '')->getDeviceDataPointer(), ''
            @ ''std::get<0>('' @ cname param @ '')->size_i(), std::get<0>('' @ cname param
            @ '')->size_j(), std::get<0>('' @ cname param @ '')->size_k(), ''
      | Tensor4 \<Rightarrow>
          ''std::get<1>('' @ cname param @ '')->getDeviceDataPointer(), ''
            @ ''std::get<0>('' @ cname param @ '')->size_i(), std::get<0>('' @ cname param
            @ '')->size_j(), std::get<0>('' @ cname param @ '')->size_k(), std::get<0>(''
            @ cname param @ '')->size_l(), ''
      | SparseMatrix \<Rightarrow>
          ''std::get<1>('' @ cname param @ '')->getDeviceDataPointer(), ''
            @ ''std::get<2>('' @ cname param @ '')->getDeviceDataPointer(), ''
            @ ''std::get<3>('' @ cname param @ '')->getDeviceDataPointer(), ''
            @ ''std::get<0>('' @ cname param @ '')->total_nnz(), '')"

definition container_proxy_init :: "'ut Externals \<Rightarrow> RandomAccessParam \<Rightarrow> string" where
  "container_proxy_init ext param =
     (case containerType param of
        Vector \<Rightarrow>
          TypeNameOpenCL ext param @ '' '' @ name param @ '' = { .data = '' @ cname param
            @ '', .size = skepu_size_'' @ name param @ '' };\<newline>''
      | Matrix \<Rightarrow>
          TypeNameOpenCL ext param @ '' '' @ name param @ '' = { .data = '' @ cname param
            @ '', .rows = skepu_rows_'' @ name param @ '', .cols = skepu_cols_'' @ name param
            @ '' };\<newline>''
      | MatRow \<Rightarrow>
          TypeNameOpenCL ext param @ '' '' @ name param @ '' = { .data = ('' @ cname param
            @ '' + i * skepu_cols_'' @ name param @ ''), .cols = skepu_cols_'' @ name param
            @ '' };\<newline>''
      | Tensor3 \<Rightarrow>
          TypeNameOpenCL ext param @ '' '' @ name param @ '' = { .data = '' @ cname param
            @ '', .size_i = skepu_size_i_'' @ name param @ '', .size_j = skepu_size_j_''
            @ name param @ '', .size_k = skepu_size_k_'' @ name param @ '' };\<newline>''
      | Tensor4 \<Rightarrow>
          TypeNameOpenCL ext param @ '' '' @ name param @ '' = { .data = '' @ cname param
            @ '', .size_i = skepu_size_i_'' @ name param @ '', .size_j = skepu_size_j_''
            @ name param @ '', .size_k = skepu_size_k_'' @ name param
            @ '', .size_l = skepu_size_l_'' @ name param @ '' };\<newline>''
      | SparseMatrix \<Rightarrow>
          TypeNameOpenCL ext param @ '' '' @ name param @ '' = { ''
            @ ''.data = '' @ cname param @ '', ''
            @ ''.row_offsets = '' @ name param @ ''_row_pointers, ''
            @ ''.col_indices = '' @ name param @ ''_col_indices, ''
            @ ''.count = skepu_size_'' @ name param @ '' };\<newline>'')"

definition container_step :: "'ut Externals \<Rightarrow> streams \<Rightarrow> RandomAccessParam \<Rightarrow> streams" where
  "container_step ext s param =
     s\<lparr>SSMapFuncParams :=
         SSMapFuncParams s @ (if \<not> first s then '', '' else []) @ name param,
       SSHostKernelParamList :=
         SSHostKernelParamList s @ TypeNameHost ext param @ '' skepu_container_''
           @ name param @ '', '',
       containerProxyTypes :=
         (containerProxyTypes s)
           (containerType param :=
              set_insert (resolvedTypeName param) (containerProxyTypes s (containerType param))),
       SSKernelParamList := SSKernelParamList s @ container_kernel_params param,
       SSKernelArgs := SSKernelArgs s @ container_kernel_args param,
       SSProxyInitializer :=
         (if containerType param = MatRow then SSProxyInitializer s
          else SSProxyInitializer s @ container_proxy_init ext param),
       SSProxyInitializerInner :=
         (if containerType param = MatRow
          then SSProxyInitializerInner s @ container_proxy_init ext param
          else SSProxyInitializerInner s),
       first := False\<rparr>"

text \<open>Lines 184 to 192: one round of the loop over the scalar parameters.\<close>

definition scalar_step :: "streams \<Rightarrow> Param \<Rightarrow> streams" where
  "scalar_step s param =
     s\<lparr>SSMapFuncParams :=
         SSMapFuncParams s @ (if \<not> first s then '', '' else []) @ name param,
       SSKernelParamList :=
         SSKernelParamList s @ resolvedTypeName param @ '' '' @ name param @ '', '',
       SSHostKernelParamList :=
         SSHostKernelParamList s @ resolvedTypeName param @ '' '' @ name param @ '', '',
       SSKernelArgs := SSKernelArgs s @ name param @ '', '',
       first := False\<rparr>"

text \<open>Lines 83 to 192 together: the streams when the three loops have run.\<close>

definition build_streams :: "'ut Externals \<Rightarrow> 'ut UserFunction \<Rightarrow> streams" where
  "build_streams ext mapFunc =
     foldl scalar_step
       (foldl (container_step ext)
          (foldl (elwise_step mapFunc) (index_step mapFunc init_streams)
             (elwiseParams mapFunc))
          (anyContainerParams mapFunc))
       (anyScalarParams mapFunc)"

subsection \<open>The kernel source and the generated artifact\<close>

text \<open>The kernel template and the wrapper class template, character by character.\<close>

definition MapPairsKernelTemplate_CL :: string where
  "MapPairsKernelTemplate_CL =
     ''\<newline>'' @
     ''__kernel void SKEPU_KERNEL_NAME(SKEPU_KERNEL_PARAMS __global SKEPU_MAP_RESULT_TYPE* output, size_t w, size_t n, size_t Vsize, size_t Hsize, size_t base)\<newline>'' @
     ''{\<newline>'' @
     [CHR 0x09] @ ''size_t i = get_global_id(0);\<newline>'' @
     [CHR 0x09] @ ''size_t gridSize = get_local_size(0) * get_num_groups(0);\<newline>'' @
     [CHR 0x09] @ ''SKEPU_CONTAINER_PROXIES\<newline>'' @
     [CHR 0x09] @ ''\<newline>'' @
     [CHR 0x09] @ ''while (i < n)\<newline>'' @
     [CHR 0x09] @ ''{\<newline>'' @
     [CHR 0x09, CHR 0x09] @ ''SKEPU_INDEX_INITIALIZER\<newline>'' @
     [CHR 0x09, CHR 0x09] @ ''SKEPU_CONTAINER_PROXIE_INNER\<newline>'' @
     [CHR 0x09, CHR 0x09] @ ''output[i] = SKEPU_FUNCTION_NAME_MAP(SKEPU_MAP_PARAMS);\<newline>'' @
     [CHR 0x09, CHR 0x09] @ ''i += gridSize;\<newline>'' @
     [CHR 0x09] @ ''}\<newline>'' @
     ''}\<newline>''"

definition Constructor :: string where
  "Constructor =
     ''\<newline>'' @
     ''class SKEPU_KERNEL_CLASS\<newline>'' @
     ''{\<newline>'' @
     ''public:\<newline>'' @
     [CHR 0x09] @ ''\<newline>'' @
     [CHR 0x09] @ ''static cl_kernel kernels(size_t deviceID, cl_kernel *newkernel = nullptr)\<newline>'' @
     [CHR 0x09] @ ''{\<newline>'' @
     [CHR 0x09, CHR 0x09] @ ''static cl_kernel arr[8]; // Hard-coded maximum\<newline>'' @
     [CHR 0x09, CHR 0x09] @ ''if (newkernel)\<newline>'' @
     [CHR 0x09, CHR 0x09] @ ''{\<newline>'' @
     [CHR 0x09, CHR 0x09, CHR 0x09] @ ''arr[deviceID] = *newkernel;\<newline>'' @
     [CHR 0x09, CHR 0x09, CHR 0x09] @ ''return nullptr;\<newline>'' @
     [CHR 0x09, CHR 0x09] @ ''}\<newline>'' @
     [CHR 0x09, CHR 0x09] @ ''else return arr[deviceID];\<newline>'' @
     [CHR 0x09] @ ''}\<newline>'' @
     [CHR 0x09] @ ''\<newline>'' @
     [CHR 0x09] @ ''static void initialize()\<newline>'' @
     [CHR 0x09] @ ''{\<newline>'' @
     [CHR 0x09, CHR 0x09] @ ''static bool initialized = false;\<newline>'' @
     [CHR 0x09, CHR 0x09] @ ''if (initialized)\<newline>'' @
     [CHR 0x09, CHR 0x09, CHR 0x09] @ ''return;\<newline>'' @
     [CHR 0x09, CHR 0x09] @ ''\<newline>'' @
     [CHR 0x09, CHR 0x09] @ ''std::string source = skepu::backend::cl_helpers::replaceSizeT(R'' @ [CHR 0x22] @ ''###(SKEPU_OPENCL_KERNEL)###'' @ [CHR 0x22] @ '');\<newline>'' @
     [CHR 0x09, CHR 0x09] @ ''\<newline>'' @
     [CHR 0x09, CHR 0x09] @ ''// Builds the code and creates kernel for all devices\<newline>'' @
     [CHR 0x09, CHR 0x09] @ ''size_t counter = 0;\<newline>'' @
     [CHR 0x09, CHR 0x09] @ ''for (skepu::backend::Device_CL *device : skepu::backend::Environment<int>::getInstance()->m_devices_CL)\<newline>'' @
     [CHR 0x09, CHR 0x09] @ ''{\<newline>'' @
     [CHR 0x09, CHR 0x09, CHR 0x09] @ ''cl_int err;\<newline>'' @
     [CHR 0x09, CHR 0x09, CHR 0x09] @ ''cl_program program = skepu::backend::cl_helpers::buildProgram(device, source);\<newline>'' @
     [CHR 0x09, CHR 0x09, CHR 0x09] @ ''cl_kernel kernel = clCreateKernel(program, '' @ [CHR 0x22] @ ''SKEPU_KERNEL_NAME'' @ [CHR 0x22] @ '', &err);\<newline>'' @
     [CHR 0x09, CHR 0x09, CHR 0x09] @ ''CL_CHECK_ERROR(err, '' @ [CHR 0x22] @ ''Error creating mappairs kernel '' @ [CHR 0x27] @ ''SKEPU_KERNEL_NAME'' @ [CHR 0x27, CHR 0x22] @ '');\<newline>'' @
     [CHR 0x09, CHR 0x09, CHR 0x09] @ ''\<newline>'' @
     [CHR 0x09, CHR 0x09, CHR 0x09] @ ''kernels(counter++, &kernel);\<newline>'' @
     [CHR 0x09, CHR 0x09] @ ''}\<newline>'' @
     [CHR 0x09, CHR 0x09] @ ''\<newline>'' @
     [CHR 0x09, CHR 0x09] @ ''initialized = true;\<newline>'' @
     [CHR 0x09] @ ''}\<newline>'' @
     [CHR 0x09] @ ''\<newline>'' @
     [CHR 0x09] @ ''static void map\<newline>'' @
     [CHR 0x09] @ ''(\<newline>'' @
     [CHR 0x09, CHR 0x09] @ ''size_t deviceID, size_t localSize, size_t globalSize,\<newline>'' @
     [CHR 0x09, CHR 0x09] @ ''SKEPU_HOST_KERNEL_PARAMS skepu::backend::DeviceMemPointer_CL<SKEPU_MAP_RESULT_TYPE> *output,\<newline>'' @
     [CHR 0x09, CHR 0x09] @ ''size_t w, size_t n, size_t Vsize, size_t Hsize, size_t base\<newline>'' @
     [CHR 0x09] @ '')\<newline>'' @
     [CHR 0x09] @ ''{\<newline>'' @
     [CHR 0x09, CHR 0x09] @ ''skepu::backend::cl_helpers::setKernelArgs(kernels(deviceID), SKEPU_KERNEL_ARGS output->getDeviceDataPointer(), w, n, Vsize, Hsize, base);\<newline>'' @
     [CHR 0x09, CHR 0x09] @ ''cl_int err = clEnqueueNDRangeKernel(skepu::backend::Environment<int>::getInstance()->m_devices_CL.at(deviceID)->getQueue(), kernels(deviceID), 1, NULL, &globalSize, &localSize, 0, NULL, NULL);\<newline>'' @
     [CHR 0x09, CHR 0x09] @ ''CL_CHECK_ERROR(err, '' @ [CHR 0x22] @ ''Error launching Map kernel'' @ [CHR 0x22] @ '');\<newline>'' @
     [CHR 0x09] @ ''}\<newline>'' @
     ''};\<newline>''"

text \<open>
  \<^verbatim>\<open>operator<<\<close> on a \<^verbatim>\<open>size_t\<close> writes its decimal digits, without leading zeros.
\<close>

definition digit :: "nat \<Rightarrow> char" where
  "digit d = ''0123456789'' ! d"

function decimal :: "nat \<Rightarrow> string" where
  "decimal n = (if n < 10 then [digit n] else decimal (n div 10) @ [digit (n mod 10)])"
  by pat_completeness auto
termination
  by (relation "measure id") auto

declare decimal.simps [simp del]

text \<open>
  Lines 197 to 213: the proxy definitions, one call of a proxy generator for each element of
  each of the six sets, the kinds in the order of the six loops.
\<close>

definition emitted_proxies :: "'ut Externals \<Rightarrow> (ContainerType \<Rightarrow> string list) \<Rightarrow> string list" where
  "emitted_proxies ext types =
     map (generateOpenCLVectorProxy ext) (types Vector)
     @ map (generateOpenCLMatrixProxy ext) (types Matrix)
     @ map (generateOpenCLSparseMatrixProxy ext) (types SparseMatrix)
     @ map (generateOpenCLMatrixRowProxy ext) (types MatRow)
     @ map (generateOpenCLTensor3Proxy ext) (types Tensor3)
     @ map (generateOpenCLTensor4Proxy ext) (types Tensor4)"

text \<open>
  Lines 215 to 217. \<^verbatim>\<open>UserConstants\<close> is a \<^verbatim>\<open>std::unordered_map\<close> from the declaration of
  a constant to its record. The loop sees it as the sequence of its entries in the
  order the container iterates them, which is how it is given here: a list of entries with
  distinct keys.
\<close>

definition user_constant_define :: "UserConstant \<Rightarrow> string" where
  "user_constant_define c =
     ''#define '' @ const_name c @ '' ('' @ definition_text c @ '') // '' @ typeName c
       @ ''\<newline>''"

definition emitted_constants :: "('d \<times> UserConstant) list \<Rightarrow> string list" where
  "emitted_constants UserConstants = map (\<lambda>pair. user_constant_define (snd pair)) UserConstants"

text \<open>Lines 194 to 229: the kernel source written to \<^verbatim>\<open>sourceStream\<close>.\<close>

definition sourceStream ::
  "'ut Externals \<Rightarrow> ('d \<times> UserConstant) list \<Rightarrow> 'ut UserFunction \<Rightarrow> string" where
  "sourceStream ext UserConstants mapFunc =
     (if requiresDoublePrecision mapFunc
      then ''#pragma OPENCL EXTENSION cl_khr_fp64: enable\<newline>'' else [])
     @ concat (emitted_proxies ext (containerProxyTypes (build_streams ext mapFunc)))
     @ concat (emitted_constants UserConstants)
     @ concat (map (generateUserTypeCode_CL ext) (ReferencedUTs mapFunc))
     @ KernelPredefinedTypes_CL ext
     @ generateUserFunctionCode_CL ext mapFunc
     @ MapPairsKernelTemplate_CL"

text \<open>
  Lines 224 to 227. \<^verbatim>\<open>ResultName\<close> is the global option of the tool, \<open>varity\<close> and
  \<open>harity\<close> are the arguments \<^verbatim>\<open>Varity\<close> and \<^verbatim>\<open>Harity\<close> of the generator.
\<close>

definition kernelName :: "'ut Externals \<Rightarrow> string \<Rightarrow> 'ut UserFunction \<Rightarrow> nat \<Rightarrow> nat \<Rightarrow> string" where
  "kernelName ext ResultName mapFunc varity harity =
     transformToCXXIdentifier ext ResultName @ ''_MapPairsKernel_'' @ uniqueName mapFunc
       @ ''_Varity_'' @ decimal varity @ ''_Harity_'' @ decimal harity"

definition className :: "'ut Externals \<Rightarrow> string \<Rightarrow> 'ut UserFunction \<Rightarrow> nat \<Rightarrow> nat \<Rightarrow> string" where
  "className ext ResultName mapFunc varity harity =
     ''CLWrapperClass_'' @ kernelName ext ResultName mapFunc varity harity"

text \<open>
  Lines 231 to 243: the placeholders and the texts that replace them, in the order of the
  calls of \<^verbatim>\<open>replaceTextInString\<close>, and the text the calls leave.
\<close>

definition substitutions ::
  "'ut Externals \<Rightarrow> Placeholders \<Rightarrow> ('d \<times> UserConstant) list \<Rightarrow> string \<Rightarrow> 'ut UserFunction
     \<Rightarrow> nat \<Rightarrow> nat \<Rightarrow> (string \<times> string) list" where
  "substitutions ext ph UserConstants ResultName mapFunc varity harity =
     (let s = build_streams ext mapFunc in
      [(''SKEPU_OPENCL_KERNEL'', sourceStream ext UserConstants mapFunc),
       (PH_MapResultType ph, resolvedReturnTypeName mapFunc),
       (PH_KernelName ph, kernelName ext ResultName mapFunc varity harity),
       (PH_MapFuncName ph, uniqueName mapFunc),
       (PH_KernelParams ph, SSKernelParamList s),
       (''SKEPU_HOST_KERNEL_PARAMS'', SSHostKernelParamList s),
       (PH_MapParams ph, SSMapFuncParams s),
       (PH_IndexInitializer ph, indexInitializer s),
       (''SKEPU_KERNEL_CLASS'', className ext ResultName mapFunc varity harity),
       (''SKEPU_KERNEL_ARGS'', SSKernelArgs s),
       (''SKEPU_CONTAINER_PROXIES'', SSProxyInitializer s),
       (''SKEPU_CONTAINER_PROXIE_INNER'', SSProxyInitializerInner s)])"

definition finalSource ::
  "'ut Externals \<Rightarrow> Placeholders \<Rightarrow> (string \<Rightarrow> string \<Rightarrow> string \<Rightarrow> string)
     \<Rightarrow> ('d \<times> UserConstant) list \<Rightarrow> string \<Rightarrow> 'ut UserFunction \<Rightarrow> nat \<Rightarrow> nat \<Rightarrow> string" where
  "finalSource ext ph replaceTextInString UserConstants ResultName mapFunc varity harity =
     foldl (\<lambda>text (find, replace). replaceTextInString text find replace) Constructor
       (substitutions ext ph UserConstants ResultName mapFunc varity harity)"

text \<open>
  Lines 245 to 248: the generator writes the text to a file named after the kernel and
  returns the kernel name.
\<close>

record artifact =
  returned :: string
  outFilePath :: string
  outFileText :: string

definition createMapPairsKernelProgram_CL ::
  "'ut Externals \<Rightarrow> Placeholders \<Rightarrow> (string \<Rightarrow> string \<Rightarrow> string \<Rightarrow> string)
     \<Rightarrow> ('d \<times> UserConstant) list \<Rightarrow> string \<Rightarrow> 'ut UserFunction \<Rightarrow> nat \<Rightarrow> nat \<Rightarrow> string
     \<Rightarrow> artifact" where
  "createMapPairsKernelProgram_CL ext ph replaceTextInString UserConstants ResultName mapFunc
       varity harity dir =
     \<lparr>returned = kernelName ext ResultName mapFunc varity harity,
      outFilePath =
        dir @ ''/'' @ kernelName ext ResultName mapFunc varity harity @ ''_cl_source.inl'',
      outFileText =
        finalSource ext ph replaceTextInString UserConstants ResultName mapFunc varity harity\<rparr>"

subsection \<open>The generated kernel\<close>

text \<open>
  The loop of the kernel template, run by the worker whose \<^verbatim>\<open>get_global_id(0)\<close> is the
  start value of \<open>i\<close>: \<^verbatim>\<open>while (i < n) { ... output[i] = ...; i += gridSize; }\<close>.
  The variables are \<^verbatim>\<open>size_t\<close>, unsigned machine integers whose addition wraps around;
  their width depends on the device, so it is the type parameter \<open>'a\<close>. The loop need not
  end, so it is run for at most \<open>fuel\<close> rounds. The result is the indices \<open>i\<close> at which
  \<^verbatim>\<open>output[i]\<close> was written, in the order of the rounds, and whether the loop has
  ended (the test \<^verbatim>\<open>i < n\<close> has failed) within these rounds.
\<close>

fun grid_stride_loop :: "nat \<Rightarrow> 'a::len word \<Rightarrow> 'a word \<Rightarrow> 'a word \<Rightarrow> 'a word list \<times> bool" where
  "grid_stride_loop 0 i n gridSize = ([], \<not> i < n)"
| "grid_stride_loop (Suc fuel) i n gridSize =
     (if i < n then
        (case grid_stride_loop fuel (i + gridSize) n gridSize of
           (visited, ended) \<Rightarrow> (i # visited, ended))
      else ([], True))"

text \<open>
  The index initializer the generator emits for a function with a two-dimensional index
  (line 97), as the generated code computes it:
  \<^verbatim>\<open>index2_t index = { .row = (base + i) / w, .col = (base + i) % w };\<close>, on
  \<^verbatim>\<open>size_t\<close> values. Division by zero is undefined in the kernel language: no result.
\<close>

record 'w index2_t =
  row :: 'w
  col :: 'w

definition index2_initializer :: "'a::len word \<Rightarrow> 'a word \<Rightarrow> 'a word \<Rightarrow> 'a word index2_t option" where
  "index2_initializer base i w =
     (if w = 0 then None else Some \<lparr>row = (base + i) div w, col = (base + i) mod w\<rparr>)"

subsection \<open>The generated wrapper class\<close>

text \<open>
  The class of the template \<^verbatim>\<open>Constructor\<close>. Its state is the two function-local statics:
  the table \<^verbatim>\<open>arr\<close> of eight kernel handles and the flag \<^verbatim>\<open>initialized\<close>. An access to
  \<^verbatim>\<open>arr[deviceID]\<close> beyond the eight slots is undefined behaviour in C++; it is the error
  \<open>OutOfBounds\<close> here. \<^verbatim>\<open>buildProgram\<close>, \<^verbatim>\<open>clCreateKernel\<close> and the macro
  \<^verbatim>\<open>CL_CHECK_ERROR\<close> belong to the runtime library: their composition is the parameter
  \<open>create\<close>, which gives the kernel handle of a device or, when the build fails, the
  error that ends the run (the specification calls a failed build fatal).
\<close>

datatype error = OutOfBounds | BuildError

record 'k wrapper_state =
  arr :: "'k list"
  initialized :: bool

definition initial_state :: "'k \<Rightarrow> 'k wrapper_state" where
  "initial_state null = \<lparr>arr = replicate 8 null, initialized = False\<rparr>"

text \<open>\<^verbatim>\<open>kernels(deviceID, &kernel)\<close> stores, \<^verbatim>\<open>kernels(deviceID)\<close> reads.\<close>

definition kernels_store :: "'k wrapper_state \<Rightarrow> nat \<Rightarrow> 'k \<Rightarrow> error + 'k wrapper_state" where
  "kernels_store s deviceID newkernel =
     (if deviceID < 8 then Inr (s\<lparr>arr := (arr s)[deviceID := newkernel]\<rparr>)
      else Inl OutOfBounds)"

definition kernels :: "'k wrapper_state \<Rightarrow> nat \<Rightarrow> error + 'k" where
  "kernels s deviceID = (if deviceID < 8 then Inr (arr s ! deviceID) else Inl OutOfBounds)"

text \<open>The loop of \<^verbatim>\<open>initialize\<close> over the devices, from the value of \<^verbatim>\<open>counter\<close>.\<close>

fun build_all ::
  "('dev \<Rightarrow> error + 'k) \<Rightarrow> 'dev list \<Rightarrow> nat \<Rightarrow> 'k wrapper_state \<Rightarrow> error + 'k wrapper_state" where
  "build_all create [] counter s = Inr s"
| "build_all create (device # devices) counter s =
     (case create device of
        Inl e \<Rightarrow> Inl e
      | Inr k \<Rightarrow>
          (case kernels_store s counter k of
             Inl e \<Rightarrow> Inl e
           | Inr s' \<Rightarrow> build_all create devices (Suc counter) s'))"

definition initialize ::
  "('dev \<Rightarrow> error + 'k) \<Rightarrow> 'dev list \<Rightarrow> 'k wrapper_state \<Rightarrow> error + 'k wrapper_state" where
  "initialize create m_devices_CL s =
     (if initialized s then Inr s
      else
        (case build_all create m_devices_CL 0 s of
           Inl e \<Rightarrow> Inl e
         | Inr s' \<Rightarrow> Inr (s'\<lparr>initialized := True\<rparr>)))"

subsection \<open>The statements of the specification\<close>

text \<open>
  The argument list as the specification words it: the arguments in the declared order of the
  user function, separated by a comma and a space.
\<close>

fun comma_separated :: "string list \<Rightarrow> string" where
  "comma_separated [] = []"
| "comma_separated [x] = x"
| "comma_separated (x # y # ys) = x @ '', '' @ comma_separated (y # ys)"

definition elwise_access :: "'ut UserFunction \<Rightarrow> nat \<times> Param \<Rightarrow> string" where
  "elwise_access mapFunc kp =
     name (snd kp) @ (if fst kp < Varity mapFunc then ''[i / Hsize]'' else ''[i % Hsize]'')"

definition spec_call_arguments :: "'ut UserFunction \<Rightarrow> string list" where
  "spec_call_arguments mapFunc =
     (if indexed1D mapFunc \<or> indexed2D mapFunc then [''index''] else [])
     @ map (elwise_access mapFunc) (enumerate 0 (elwiseParams mapFunc))
     @ map name (anyContainerParams mapFunc)
     @ map name (anyScalarParams mapFunc)"

text \<open>The invariant of the three loops: the arguments written so far.\<close>

definition args_so_far :: "streams \<Rightarrow> string list \<Rightarrow> bool" where
  "args_so_far s items \<longleftrightarrow> SSMapFuncParams s = comma_separated items \<and> (first s \<longleftrightarrow> items = [])"

text \<open>The element types of the container parameters of one kind.\<close>

definition types_of_kind :: "ContainerType \<Rightarrow> RandomAccessParam list \<Rightarrow> string set" where
  "types_of_kind k ps = {resolvedTypeName p |p. p \<in> set ps \<and> containerType p = k}"


text \<open>
  The indices of a worker that starts at \<open>i\<close>, read as natural numbers: \<open>i\<close>,
  \<open>i + W\<close>, \<open>i + 2 W\<close>, ... below \<open>n\<close>.
\<close>

definition worker_indices :: "'a::len word \<Rightarrow> 'a word \<Rightarrow> 'a word \<Rightarrow> 'a word set" where
  "worker_indices i n W = {j. unat i \<le> unat j \<and> unat j < unat n \<and> unat W dvd (unat j - unat i)}"

text \<open>
  Modelled from the spec: the registration of the user constants by the front end, which is
  not in this file. The front end registers each constant it discovers in
  \<^verbatim>\<open>UserConstants\<close>, under the declaration of the constant. The container then holds the
  discovered entries, each once; C++ leaves the order in which a \<^verbatim>\<open>std::unordered_map\<close>
  iterates them open, so every arrangement of the discovered entries is a state the
  generator can meet.
\<close>

definition holds_discovered :: "('d \<times> UserConstant) list \<Rightarrow> ('d \<times> UserConstant) list \<Rightarrow> bool" where
  "holds_discovered UserConstants discovered \<longleftrightarrow>
     distinct (map fst discovered) \<and> mset UserConstants = mset discovered"

subsection \<open>Concrete inputs\<close>

text \<open>
  Stand-ins for the functions the generator calls, to run it on concrete inputs.
\<close>

definition sample_externals :: "unit Externals" where
  "sample_externals =
     \<lparr>TypeNameOpenCL = (\<lambda>p. ''proxy_'' @ resolvedTypeName p),
      TypeNameHost = (\<lambda>p. ''host_'' @ resolvedTypeName p),
      generateOpenCLVectorProxy = (\<lambda>t. ''vector proxy of '' @ t @ ''\<newline>''),
      generateOpenCLMatrixProxy = (\<lambda>t. ''matrix proxy of '' @ t @ ''\<newline>''),
      generateOpenCLSparseMatrixProxy = (\<lambda>t. ''sparse matrix proxy of '' @ t @ ''\<newline>''),
      generateOpenCLMatrixRowProxy = (\<lambda>t. ''matrix row proxy of '' @ t @ ''\<newline>''),
      generateOpenCLTensor3Proxy = (\<lambda>t. ''tensor3 proxy of '' @ t @ ''\<newline>''),
      generateOpenCLTensor4Proxy = (\<lambda>t. ''tensor4 proxy of '' @ t @ ''\<newline>''),
      generateUserTypeCode_CL = (\<lambda>_. []),
      generateUserFunctionCode_CL = (\<lambda>f. ''code of '' @ uniqueName f @ ''\<newline>''),
      KernelPredefinedTypes_CL = ''predefined types\<newline>'',
      transformToCXXIdentifier = (\<lambda>text. text)\<rparr>"

text \<open>The function of the scenario "pairwise vector map".\<close>

definition pairwise_vector_map :: "unit UserFunction" where
  "pairwise_vector_map =
     \<lparr>uniqueName = ''f'', resolvedReturnTypeName = ''float'', indexed1D = False,
      indexed2D = False, requiresDoublePrecision = False, Varity = 1,
      elwiseParams =
        [\<lparr>name = ''a'', resolvedTypeName = ''float''\<rparr>,
         \<lparr>name = ''b'', resolvedTypeName = ''float''\<rparr>],
      anyContainerParams = [], anyScalarParams = [], ReferencedUTs = []\<rparr>"

text \<open>
  A function with a two-dimensional index and parameters of every class: two vectors of
  the same element type, a matrix row and a matrix among its containers.
\<close>

definition indexed_function :: "unit UserFunction" where
  "indexed_function =
     \<lparr>uniqueName = ''g'', resolvedReturnTypeName = ''float'', indexed1D = False,
      indexed2D = True, requiresDoublePrecision = False, Varity = 1,
      elwiseParams =
        [\<lparr>name = ''a'', resolvedTypeName = ''float''\<rparr>,
         \<lparr>name = ''b'', resolvedTypeName = ''float''\<rparr>],
      anyContainerParams =
        [\<lparr>name = ''v'', resolvedTypeName = ''float'', containerType = Vector\<rparr>,
         \<lparr>name = ''r'', resolvedTypeName = ''float'', containerType = MatRow\<rparr>,
         \<lparr>name = ''u'', resolvedTypeName = ''float'', containerType = Vector\<rparr>,
         \<lparr>name = ''m'', resolvedTypeName = ''double'', containerType = Matrix\<rparr>],
      anyScalarParams = [\<lparr>name = ''k'', resolvedTypeName = ''int''\<rparr>],
      ReferencedUTs = []\<rparr>"

text \<open>The function of the scenario "precision pragma ordering".\<close>

definition double_matrix_function :: "unit UserFunction" where
  "double_matrix_function =
     \<lparr>uniqueName = ''h'', resolvedReturnTypeName = ''double'', indexed1D = False,
      indexed2D = False, requiresDoublePrecision = True, Varity = 1,
      elwiseParams =
        [\<lparr>name = ''a'', resolvedTypeName = ''double''\<rparr>,
         \<lparr>name = ''b'', resolvedTypeName = ''double''\<rparr>],
      anyContainerParams =
        [\<lparr>name = ''m'', resolvedTypeName = ''double'', containerType = Matrix\<rparr>],
      anyScalarParams = [], ReferencedUTs = []\<rparr>"

text \<open>Two user constants, and a build function for three or nine devices.\<close>

definition pi_constant :: UserConstant where
  "pi_constant = \<lparr>const_name = ''PI'', definition_text = ''3.14f'', typeName = ''float''\<rparr>"

definition size_constant :: UserConstant where
  "size_constant = \<lparr>const_name = ''N'', definition_text = ''16'', typeName = ''int''\<rparr>"

definition sample_create :: "nat \<Rightarrow> error + nat" where
  "sample_create device = Inr (100 + device)"

section \<open>Properties\<close>

subsection \<open>The arguments of the call of the user function\<close>

lemma foldl_preserves:
  assumes "\<And>s p. f (step s p) = f s"
  shows "f (foldl step s ps) = f s"
  using assms by (induction ps arbitrary: s) simp_all

lemma comma_separated_snoc:
  "comma_separated (xs @ [x]) = (if xs = [] then x else comma_separated xs @ '', '' @ x)"
  by (induction xs rule: comma_separated.induct) simp_all

lemma args_index_step:
  "args_so_far (index_step mapFunc init_streams)
     (if indexed1D mapFunc \<or> indexed2D mapFunc then [''index''] else [])"
  by (simp add: args_so_far_def index_step_def init_streams_def)

lemma ctr_index_step: "ctr (index_step mapFunc init_streams) = 0"
  by (simp add: index_step_def init_streams_def)

lemma args_elwise_step:
  "args_so_far s items \<Longrightarrow>
   args_so_far (elwise_step mapFunc s p) (items @ [elwise_access mapFunc (ctr s, p)])"
  by (simp add: args_so_far_def elwise_step_def elwise_access_def comma_separated_snoc)

lemma args_elwise_loop:
  "args_so_far s items \<Longrightarrow>
   args_so_far (foldl (elwise_step mapFunc) s ps)
     (items @ map (elwise_access mapFunc) (enumerate (ctr s) ps))"
proof (induction ps arbitrary: s items)
  case Nil
  then show ?case by simp
next
  case (Cons p ps)
  have c: "ctr (elwise_step mapFunc s p) = Suc (ctr s)"
    by (simp add: elwise_step_def)
  have "args_so_far (elwise_step mapFunc s p) (items @ [elwise_access mapFunc (ctr s, p)])"
    by (rule args_elwise_step [OF Cons.prems])
  from Cons.IH [OF this] c show ?case
    by simp
qed

lemma args_container_step:
  "args_so_far s items \<Longrightarrow> args_so_far (container_step ext s p) (items @ [name p])"
  by (simp add: args_so_far_def container_step_def comma_separated_snoc)

lemma args_container_loop:
  "args_so_far s items \<Longrightarrow>
   args_so_far (foldl (container_step ext) s ps) (items @ map name ps)"
proof (induction ps arbitrary: s items)
  case Nil
  then show ?case by simp
next
  case (Cons p ps)
  have "args_so_far (container_step ext s p) (items @ [name p])"
    by (rule args_container_step [OF Cons.prems])
  from Cons.IH [OF this] show ?case
    by simp
qed

lemma args_scalar_step:
  "args_so_far s items \<Longrightarrow> args_so_far (scalar_step s p) (items @ [name p])"
  by (simp add: args_so_far_def scalar_step_def comma_separated_snoc)

lemma args_scalar_loop:
  "args_so_far s items \<Longrightarrow> args_so_far (foldl scalar_step s ps) (items @ map name ps)"
proof (induction ps arbitrary: s items)
  case Nil
  then show ?case by simp
next
  case (Cons p ps)
  have "args_so_far (scalar_step s p) (items @ [name p])"
    by (rule args_scalar_step [OF Cons.prems])
  from Cons.IH [OF this] show ?case
    by simp
qed

lemma args_build_streams:
  "args_so_far (build_streams ext mapFunc) (spec_call_arguments mapFunc)"
proof -
  have "args_so_far
     (foldl (elwise_step mapFunc) (index_step mapFunc init_streams) (elwiseParams mapFunc))
     ((if indexed1D mapFunc \<or> indexed2D mapFunc then [''index''] else [])
      @ map (elwise_access mapFunc) (enumerate 0 (elwiseParams mapFunc)))"
    using args_elwise_loop [OF args_index_step, where mapFunc = mapFunc and mapFunc1 = mapFunc
        and ps = "elwiseParams mapFunc"]
    by (simp only: ctr_index_step)
  then have "args_so_far
     (foldl (container_step ext)
        (foldl (elwise_step mapFunc) (index_step mapFunc init_streams) (elwiseParams mapFunc))
        (anyContainerParams mapFunc))
     (((if indexed1D mapFunc \<or> indexed2D mapFunc then [''index''] else [])
      @ map (elwise_access mapFunc) (enumerate 0 (elwiseParams mapFunc)))
      @ map name (anyContainerParams mapFunc))"
    by (rule args_container_loop)
  then have "args_so_far (build_streams ext mapFunc)
     ((((if indexed1D mapFunc \<or> indexed2D mapFunc then [''index''] else [])
      @ map (elwise_access mapFunc) (enumerate 0 (elwiseParams mapFunc)))
      @ map name (anyContainerParams mapFunc)) @ map name (anyScalarParams mapFunc))"
    unfolding build_streams_def by (rule args_scalar_loop)
  then show ?thesis
    by (simp add: spec_call_arguments_def)
qed

text \<open>
  C1. The text the generator passes for \<^verbatim>\<open>SKEPU_MAP_PARAMS\<close> lists the arguments in the
  declared order: the index first if the function is indexed, then each elementwise
  parameter, indexed by \<^verbatim>\<open>[i / Hsize]\<close> when it is one of the first \<open>Varity\<close> and by
  \<^verbatim>\<open>[i % Hsize]\<close> otherwise, then each container parameter by its name, then each scalar
  parameter by its name. For one vertical parameter \<open>a\<close> and one horizontal parameter
  \<open>b\<close> the text is \<^verbatim>\<open>a[i / Hsize], b[i % Hsize]\<close>.
\<close>

theorem call_arguments_order:
  "SSMapFuncParams (build_streams ext mapFunc) = comma_separated (spec_call_arguments mapFunc)
   \<and> SSMapFuncParams (build_streams ext' pairwise_vector_map) = ''a[i / Hsize], b[i % Hsize]''"
proof
  show "SSMapFuncParams (build_streams ext mapFunc) = comma_separated (spec_call_arguments mapFunc)"
    using args_build_streams [of ext mapFunc] by (simp add: args_so_far_def)
  have "SSMapFuncParams (build_streams ext' pairwise_vector_map)
      = comma_separated (spec_call_arguments pairwise_vector_map)"
    using args_build_streams [of ext' pairwise_vector_map] by (simp add: args_so_far_def)
  then show "SSMapFuncParams (build_streams ext' pairwise_vector_map) = ''a[i / Hsize], b[i % Hsize]''"
    by (simp add: spec_call_arguments_def pairwise_vector_map_def elwise_access_def enumerate_eq_zip upt_rec)
qed

text \<open>The same on a function with an index, containers and a scalar.\<close>

theorem call_arguments_order_witness:
  "SSMapFuncParams (build_streams sample_externals indexed_function)
     = ''index, a[i / Hsize], b[i % Hsize], v, r, u, m, k''"
proof -
  have "SSMapFuncParams (build_streams sample_externals indexed_function)
      = comma_separated (spec_call_arguments indexed_function)"
    using call_arguments_order [of sample_externals indexed_function] by simp
  then show ?thesis
    by (simp add: spec_call_arguments_def indexed_function_def elwise_access_def
        enumerate_eq_zip upt_rec)
qed

subsection \<open>The grid-stride loop\<close>

lemma worker_indices_step:
  fixes i n W :: "'a::len word"
  assumes W: "0 < unat W" and i: "unat i < unat n" and step: "unat (i + W) = unat i + unat W"
  shows "insert i (worker_indices (i + W) n W) = worker_indices i n W"
proof (rule set_eqI)
  fix j :: "'a word"
  have "j = i \<longleftrightarrow> unat j = unat i"
    by (rule word_unat_eq_iff)
  moreover have "unat j = unat i \<or> unat i + unat W \<le> unat j \<and> unat W dvd (unat j - (unat i + unat W))"
    if "unat i \<le> unat j" and d: "unat W dvd (unat j - unat i)"
  proof (cases "unat j = unat i")
    case True
    then show ?thesis by simp
  next
    case False
    with that have pos: "0 < unat j - unat i" by simp
    with d have "unat W \<le> unat j - unat i"
      by (rule dvd_imp_le)
    with that(1) have le: "unat i + unat W \<le> unat j" by simp
    have "unat j - unat i = (unat j - (unat i + unat W)) + unat W"
      using le by simp
    with d have "unat W dvd (unat j - (unat i + unat W))"
      by (metis dvd_add_triv_right_iff)
    with le show ?thesis by simp
  qed
  moreover have "unat W dvd (unat j - unat i)"
    if le: "unat i + unat W \<le> unat j" and d: "unat W dvd (unat j - (unat i + unat W))"
  proof -
    have "unat j - unat i = (unat j - (unat i + unat W)) + unat W"
      using le by simp
    with d show ?thesis by simp
  qed
  ultimately show "j \<in> insert i (worker_indices (i + W) n W) \<longleftrightarrow> j \<in> worker_indices i n W"
    using i by (auto simp add: worker_indices_def step)
qed

lemma grid_stride_loop_ends:
  fixes i n W :: "'a::len word"
  assumes "0 < unat W" and "unat n + unat W \<le> 2 ^ LENGTH('a)" and "unat n \<le> fuel + unat i"
  shows "snd (grid_stride_loop fuel i n W)
     \<and> distinct (fst (grid_stride_loop fuel i n W))
     \<and> set (fst (grid_stride_loop fuel i n W)) = worker_indices i n W"
  using assms(3)
proof (induction fuel arbitrary: i)
  case 0
  then have "\<not> i < n" by (simp add: word_less_nat_alt)
  moreover from 0 have "worker_indices i n W = {}"
    by (auto simp add: worker_indices_def)
  ultimately show ?case by simp
next
  case (Suc fuel)
  show ?case
  proof (cases "i < n")
    case False
    then have "worker_indices i n W = {}"
      by (auto simp add: worker_indices_def word_less_nat_alt)
    with False show ?thesis by simp
  next
    case True
    then have i: "unat i < unat n" by (simp add: word_less_nat_alt)
    with assms(2) have "unat i + unat W < 2 ^ LENGTH('a)" by simp
    then have step: "unat (i + W) = unat i + unat W"
      by (simp add: unat_add_lem)
    have "unat n \<le> fuel + unat (i + W)"
      using Suc.prems assms(1) by (simp add: step)
    from Suc.IH [OF this]
    have ended: "snd (grid_stride_loop fuel (i + W) n W)"
      and dist: "distinct (fst (grid_stride_loop fuel (i + W) n W))"
      and vis: "set (fst (grid_stride_loop fuel (i + W) n W)) = worker_indices (i + W) n W"
      by simp_all
    have "i \<notin> worker_indices (i + W) n W"
      using assms(1) by (simp add: worker_indices_def step)
    with True ended dist vis worker_indices_step [OF assms(1) i step] show ?thesis
      by (simp add: split_beta)
  qed
qed

lemma worker_indices_mod:
  fixes g n W :: "'a::len word"
  assumes "g < W"
  shows "worker_indices g n W = {j. j < n \<and> unat j mod unat W = unat g}"
proof (rule set_eqI)
  fix j :: "'a word"
  from assms have g: "unat g < unat W" by (simp add: word_less_nat_alt)
  have "unat j mod unat W = unat g" if "unat g \<le> unat j" and "unat W dvd (unat j - unat g)"
  proof -
    from that(2) obtain k where "unat j - unat g = unat W * k" ..
    with that(1) have "unat j = unat g + unat W * k" by simp
    with g show ?thesis by simp
  qed
  moreover have "unat g \<le> unat j \<and> unat W dvd (unat j - unat g)" if "unat j mod unat W = unat g"
  proof -
    have "unat j = unat W * (unat j div unat W) + unat g"
      using that mult_div_mod_eq [of "unat W" "unat j"] by simp
    then have "unat g \<le> unat j" and "unat j - unat g = unat W * (unat j div unat W)"
      by simp_all
    then show ?thesis by simp
  qed
  ultimately show "j \<in> worker_indices g n W \<longleftrightarrow> j \<in> {j. j < n \<and> unat j mod unat W = unat g}"
    by (auto simp add: worker_indices_def word_less_nat_alt)
qed

lemma worker_of_index:
  fixes j W :: "'a::len word"
  assumes "0 < W"
  shows "word_of_nat (unat j mod unat W) < W"
    and "unat (word_of_nat (unat j mod unat W) :: 'a word) = unat j mod unat W"
proof -
  from assms have W: "0 < unat W" by (simp add: word_less_nat_alt)
  then have lt: "unat j mod unat W < unat W" by simp
  then have "unat j mod unat W \<le> unat W" by simp
  then show u: "unat (word_of_nat (unat j mod unat W) :: 'a word) = unat j mod unat W"
    by (rule le_unat_uoi)
  from lt show "word_of_nat (unat j mod unat W) < W"
    by (simp add: word_less_nat_alt u)
qed

text \<open>
  C2, as stated, for every \<open>n\<close> and every \<open>W > 0\<close>: it fails where
  \<^verbatim>\<open>i += gridSize\<close> wraps around. With 64 bits, \<open>n = 2\<^sup>6\<^sup>4 - 1\<close> and
  \<open>W = 2\<^sup>6\<^sup>3\<close>, the worker that starts at 0 writes index 0, then index \<open>2\<^sup>6\<^sup>3\<close>,
  then index 0 again.
\<close>

theorem grid_stride_wraps_counterexample:
  "fst (grid_stride_loop 3 (0 :: 64 word) 18446744073709551615 9223372036854775808)
     = [0, 9223372036854775808, 0]
   \<and> \<not> distinct
        (fst (grid_stride_loop 3 (0 :: 64 word) 18446744073709551615 9223372036854775808))"
  by (simp add: numeral_3_eq_3)

text \<open>
  C2, amended. When \<open>n + W\<close> does not exceed the range of \<^verbatim>\<open>size_t\<close> (so that the
  addition never wraps) and \<open>W > 0\<close>: the loop of every worker \<open>g < W\<close> ends within
  \<open>n\<close> rounds and visits no index twice, the workers together visit exactly the
  indices below \<open>n\<close>, and no index is visited by two workers.
\<close>

theorem grid_stride_coverage:
  fixes n W :: "'a::len word"
  assumes "0 < W" and "unat n + unat W \<le> 2 ^ LENGTH('a)" and "unat n \<le> fuel"
  shows "(\<forall>g. g < W \<longrightarrow>
            snd (grid_stride_loop fuel g n W) \<and> distinct (fst (grid_stride_loop fuel g n W)))
       \<and> (\<Union>g\<in>{g. g < W}. set (fst (grid_stride_loop fuel g n W))) = {i. i < n}
       \<and> (\<forall>g g'. g < W \<and> g' < W \<and> g \<noteq> g' \<longrightarrow>
            set (fst (grid_stride_loop fuel g n W)) \<inter> set (fst (grid_stride_loop fuel g' n W)) = {})"
proof -
  from assms(1) have W: "0 < unat W" by (simp add: word_less_nat_alt)
  have loop: "snd (grid_stride_loop fuel g n W) \<and> distinct (fst (grid_stride_loop fuel g n W))
      \<and> set (fst (grid_stride_loop fuel g n W)) = {j. j < n \<and> unat j mod unat W = unat g}"
    if "g < W" for g
    using grid_stride_loop_ends [OF W assms(2), of fuel g] assms(3) worker_indices_mod [OF that, of n]
    by simp
  have cover: "(\<Union>g\<in>{g. g < W}. set (fst (grid_stride_loop fuel g n W))) = {i. i < n}"
  proof (rule set_eqI)
    fix j :: "'a word"
    show "j \<in> (\<Union>g\<in>{g. g < W}. set (fst (grid_stride_loop fuel g n W))) \<longleftrightarrow> j \<in> {i. i < n}"
    proof
      assume "j \<in> (\<Union>g\<in>{g. g < W}. set (fst (grid_stride_loop fuel g n W)))"
      then show "j \<in> {i. i < n}" using loop by auto
    next
      assume "j \<in> {i. i < n}"
      then have "j \<in> set (fst (grid_stride_loop fuel (word_of_nat (unat j mod unat W)) n W))"
        using loop [OF worker_of_index(1) [OF assms(1), of j]] worker_of_index(2) [OF assms(1), of j]
        by simp
      with worker_of_index(1) [OF assms(1), of j]
      show "j \<in> (\<Union>g\<in>{g. g < W}. set (fst (grid_stride_loop fuel g n W)))"
        by blast
    qed
  qed
  have disj: "set (fst (grid_stride_loop fuel g n W)) \<inter> set (fst (grid_stride_loop fuel g' n W)) = {}"
    if "g < W" "g' < W" "g \<noteq> g'" for g g'
    using loop [OF that(1)] loop [OF that(2)] that(3) by (auto simp add: word_unat_eq_iff)
  from loop cover disj show ?thesis by blast
qed


text \<open>Ten elements and four workers of 32 bits: the four loops and their indices.\<close>

theorem grid_stride_coverage_witness:
  "(0 :: 32 word) < 4 \<and> unat (10 :: 32 word) + unat (4 :: 32 word) \<le> 2 ^ LENGTH(32)
   \<and> unat (10 :: 32 word) \<le> 10
   \<and> grid_stride_loop 10 (0 :: 32 word) 10 4 = ([0, 4, 8], True)
   \<and> grid_stride_loop 10 (1 :: 32 word) 10 4 = ([1, 5, 9], True)
   \<and> grid_stride_loop 10 (2 :: 32 word) 10 4 = ([2, 6], True)
   \<and> grid_stride_loop 10 (3 :: 32 word) 10 4 = ([3, 7], True)
   \<and> (\<Union>g\<in>{g. g < 4}. set (fst (grid_stride_loop 10 g (10 :: 32 word) 4))) = {i. i < 10}"
proof -
  have h: "(0 :: 32 word) < 4" "unat (10 :: 32 word) + unat (4 :: 32 word) \<le> 2 ^ LENGTH(32)"
    "unat (10 :: 32 word) \<le> 10"
    by simp_all
  have "grid_stride_loop 10 (0 :: 32 word) 10 4 = ([0, 4, 8], True)"
    "grid_stride_loop 10 (1 :: 32 word) 10 4 = ([1, 5, 9], True)"
    "grid_stride_loop 10 (2 :: 32 word) 10 4 = ([2, 6], True)"
    "grid_stride_loop 10 (3 :: 32 word) 10 4 = ([3, 7], True)"
    by code_simp+
  with h grid_stride_coverage [OF h] show ?thesis
    by simp
qed

subsection \<open>The proxy definitions\<close>

lemma set_set_insert: "set (set_insert x xs) = insert x (set xs)"
  by (auto simp add: set_insert_def set_insort_key)

lemma distinct_set_insert: "distinct xs \<Longrightarrow> distinct (set_insert x xs)"
  by (simp add: set_insert_def distinct_insort)

lemma types_container_step:
  "set (containerProxyTypes (container_step ext s p) k)
     = set (containerProxyTypes s k) \<union> types_of_kind k [p]"
  by (auto simp add: container_step_def types_of_kind_def set_set_insert)

lemma types_of_kind_Cons:
  "types_of_kind k (p # ps) = types_of_kind k [p] \<union> types_of_kind k ps"
  by (auto simp add: types_of_kind_def)

lemma types_container_loop:
  "set (containerProxyTypes (foldl (container_step ext) s ps) k)
     = set (containerProxyTypes s k) \<union> types_of_kind k ps"
proof (induction ps arbitrary: s)
  case Nil
  show ?case by (simp add: types_of_kind_def)
next
  case (Cons p ps)
  show ?case
    by (simp add: Cons.IH types_container_step types_of_kind_Cons [of k p ps] Un_assoc)
qed

lemma distinct_container_step:
  "distinct (containerProxyTypes s k) \<Longrightarrow> distinct (containerProxyTypes (container_step ext s p) k)"
  by (auto simp add: container_step_def distinct_set_insert)

lemma distinct_container_loop:
  "distinct (containerProxyTypes s k)
   \<Longrightarrow> distinct (containerProxyTypes (foldl (container_step ext) s ps) k)"
  by (induction ps arbitrary: s) (simp_all add: distinct_container_step)

lemma types_before_containers:
  "containerProxyTypes
     (foldl (elwise_step mapFunc) (index_step mapFunc init_streams) ps) = (\<lambda>_. [])"
proof -
  have "containerProxyTypes (foldl (elwise_step mapFunc) (index_step mapFunc init_streams) ps)
      = containerProxyTypes (index_step mapFunc init_streams)"
    by (rule foldl_preserves) (simp add: elwise_step_def)
  then show ?thesis
    by (simp add: index_step_def init_streams_def)
qed

lemma types_build_streams_eq:
  "containerProxyTypes (build_streams ext mapFunc)
     = containerProxyTypes
         (foldl (container_step ext)
            (foldl (elwise_step mapFunc) (index_step mapFunc init_streams)
               (elwiseParams mapFunc))
            (anyContainerParams mapFunc))"
  unfolding build_streams_def by (rule foldl_preserves) (simp add: scalar_step_def)

lemma types_build_streams:
  "set (containerProxyTypes (build_streams ext mapFunc) k)
     = types_of_kind k (anyContainerParams mapFunc)"
  and distinct_build_streams: "distinct (containerProxyTypes (build_streams ext mapFunc) k)"
  by (simp_all add: types_build_streams_eq types_container_loop distinct_container_loop
      types_before_containers)

lemma UNIV_ContainerType: "UNIV = {Vector, Matrix, SparseMatrix, MatRow, Tensor3, Tensor4}"
proof -
  have "k \<in> {Vector, Matrix, SparseMatrix, MatRow, Tensor3, Tensor4}" for k
    by (cases k) simp_all
  then show ?thesis by blast
qed

lemma keys_as_sigma:
  "(\<lambda>p. (containerType p, resolvedTypeName p)) ` set ps = (SIGMA k:UNIV. types_of_kind k ps)"
  by (auto simp add: types_of_kind_def image_iff)

lemma finite_types_of_kind: "finite (types_of_kind k ps)"
proof -
  have "types_of_kind k ps \<subseteq> resolvedTypeName ` set ps"
    by (auto simp add: types_of_kind_def)
  then show ?thesis by (rule finite_subset) simp
qed

lemma card_keys:
  "card ((\<lambda>p. (containerType p, resolvedTypeName p)) ` set ps)
     = (\<Sum>k\<in>{Vector, Matrix, SparseMatrix, MatRow, Tensor3, Tensor4}. card (types_of_kind k ps))"
proof -
  have "finite (UNIV :: ContainerType set)"
    by (simp add: UNIV_ContainerType)
  then have "card (SIGMA k:UNIV. types_of_kind k ps) = (\<Sum>k\<in>UNIV. card (types_of_kind k ps))"
    by (simp add: card_SigmaI finite_types_of_kind)
  then show ?thesis
    by (simp only: keys_as_sigma UNIV_ContainerType [symmetric])
qed

text \<open>
  C3. The number of proxy definitions written to the kernel source is the number of distinct
  pairs of container kind and resolved element type among the container parameters: the
  set of a kind holds the element types of the parameters of this kind, each once.
\<close>

theorem proxy_definitions_dedup:
  "length (emitted_proxies ext (containerProxyTypes (build_streams ext mapFunc)))
     = card ((\<lambda>p. (containerType p, resolvedTypeName p)) ` set (anyContainerParams mapFunc))
   \<and> distinct (containerProxyTypes (build_streams ext mapFunc) k)
   \<and> set (containerProxyTypes (build_streams ext mapFunc) k)
       = {resolvedTypeName p |p. p \<in> set (anyContainerParams mapFunc) \<and> containerType p = k}"
proof -
  have "length (containerProxyTypes (build_streams ext mapFunc) k)
      = card (types_of_kind k (anyContainerParams mapFunc))" for k
    using distinct_card [OF distinct_build_streams [of ext mapFunc k]]
    by (simp add: types_build_streams)
  then show ?thesis
    using distinct_build_streams [of ext mapFunc k] types_build_streams [of ext mapFunc k]
    by (simp add: emitted_proxies_def card_keys types_of_kind_def)
qed

text \<open>
  Four container parameters, two of them vectors of \<^verbatim>\<open>float\<close>: three proxy definitions.
\<close>

theorem proxy_definitions_dedup_witness:
  "length (anyContainerParams indexed_function) = 4
   \<and> length (emitted_proxies sample_externals
        (containerProxyTypes (build_streams sample_externals indexed_function))) = 3"
proof -
  have "card ((\<lambda>p. (containerType p, resolvedTypeName p))
      ` set (anyContainerParams indexed_function)) = 3"
    by (simp add: indexed_function_def card_insert_if)
  with proxy_definitions_dedup [of sample_externals indexed_function, THEN conjunct1]
  show ?thesis
    by (simp add: indexed_function_def)
qed

subsection \<open>The placement of the proxy initializers\<close>







subsection \<open>The names of the kernel and of the wrapper class\<close>

lemma digit_is_digit: "d < 10 \<Longrightarrow> digit d \<in> set ''0123456789''"
  unfolding digit_def by (rule nth_mem) simp

lemma digit_inj: "d < 10 \<Longrightarrow> e < 10 \<Longrightarrow> digit d = digit e \<Longrightarrow> d = e"
proof -
  assume "d < 10" "e < 10" "digit d = digit e"
  moreover have "distinct ''0123456789''" by simp
  ultimately show "d = e"
    using nth_eq_iff_index_eq [of "''0123456789''" d e] by (simp add: digit_def)
qed

lemma decimal_digits: "set (decimal n) \<subseteq> set ''0123456789''"
proof (induction n rule: decimal.induct)
  case (1 n)
  show ?case
  proof (cases "n < 10")
    case True
    then show ?thesis
      using digit_is_digit [of n] by (subst decimal.simps) simp
  next
    case False
    then show ?thesis
      using "1" digit_is_digit [of "n mod 10"] by (subst decimal.simps) simp
  qed
qed

lemma decimal_no_underscore: "CHR ''_'' \<notin> set (decimal n)"
  using decimal_digits [of n] by auto

lemma decimal_length_one: "length (decimal n) = 1 \<longleftrightarrow> n < 10"
proof (cases "n < 10")
  case True
  then show ?thesis by (subst decimal.simps) simp
next
  case False
  have "decimal (n div 10) \<noteq> []"
    by (subst decimal.simps) simp
  with False show ?thesis by (subst decimal.simps) simp
qed

lemma decimal_inj: "decimal m = decimal n \<Longrightarrow> m = n"
proof (induction m arbitrary: n rule: decimal.induct)
  case (1 m)
  show ?case
  proof (cases "m < 10")
    case True
    with "1.prems" have "n < 10"
      using decimal_length_one [of m] decimal_length_one [of n] by simp
    with True "1.prems" show ?thesis
      using digit_inj [of m n] by (simp add: decimal.simps)
  next
    case False
    with "1.prems" have n: "\<not> n < 10"
      using decimal_length_one [of m] decimal_length_one [of n] by simp
    from False n "1.prems"
    have "decimal (m div 10) @ [digit (m mod 10)] = decimal (n div 10) @ [digit (n mod 10)]"
      by (simp add: decimal.simps [of m] decimal.simps [of n])
    then have "decimal (m div 10) = decimal (n div 10)" and "digit (m mod 10) = digit (n mod 10)"
      by simp_all
    then have "m div 10 = n div 10" and "m mod 10 = n mod 10"
      using "1.IH" [OF False] digit_inj [of "m mod 10" "n mod 10"] by simp_all
    then show ?thesis
      by (metis div_mult_mod_eq)
  qed
qed

lemma split_at_last:
  assumes "c \<notin> set ds" and "c \<notin> set es" and "xs @ c # ds = ys @ c # es"
  shows "xs = ys \<and> ds = es"
proof -
  from assms(3) have "rev (xs @ c # ds) = rev (ys @ c # es)" by simp
  then have "takeWhile (\<lambda>x. x \<noteq> c) (rev ds @ c # rev xs)
      = takeWhile (\<lambda>x. x \<noteq> c) (rev es @ c # rev ys)"
    by simp
  moreover have "takeWhile (\<lambda>x. x \<noteq> c) (rev ds @ c # rev xs) = rev ds"
    using assms(1) by (auto simp add: takeWhile_tail)
  moreover have "takeWhile (\<lambda>x. x \<noteq> c) (rev es @ c # rev ys) = rev es"
    using assms(2) by (auto simp add: takeWhile_tail)
  ultimately have "ds = es" by simp
  with assms(3) show ?thesis by simp
qed

lemma suffix_decimal_inj:
  assumes "xs @ ''_Varity_'' @ decimal v @ ''_Harity_'' @ decimal h
         = ys @ ''_Varity_'' @ decimal v' @ ''_Harity_'' @ decimal h'"
  shows "xs = ys \<and> v = v' \<and> h = h'"
proof -
  from assms have
    "(xs @ ''_Varity_'' @ decimal v @ ''_Harity'') @ CHR ''_'' # decimal h
   = (ys @ ''_Varity_'' @ decimal v' @ ''_Harity'') @ CHR ''_'' # decimal h'"
    by simp
  then have a: "xs @ ''_Varity_'' @ decimal v @ ''_Harity'' = ys @ ''_Varity_'' @ decimal v' @ ''_Harity''"
    and h: "decimal h = decimal h'"
    using split_at_last [OF decimal_no_underscore decimal_no_underscore] by blast+
  from a have "(xs @ ''_Varity_'' @ decimal v) @ ''_Harity'' = (ys @ ''_Varity_'' @ decimal v') @ ''_Harity''"
    by simp
  then have "xs @ ''_Varity_'' @ decimal v = ys @ ''_Varity_'' @ decimal v'"
    by (simp only: append_same_eq)
  then have "(xs @ ''_Varity'') @ CHR ''_'' # decimal v = (ys @ ''_Varity'') @ CHR ''_'' # decimal v'"
    by simp
  then have b: "xs @ ''_Varity'' = ys @ ''_Varity''" and v: "decimal v = decimal v'"
    using split_at_last [OF decimal_no_underscore decimal_no_underscore] by blast+
  from b have "xs = ys" by (simp only: append_same_eq)
  with v h show ?thesis by (simp add: decimal_inj)
qed

lemma kernelName_inj:
  "kernelName ext ResultName mapFunc v h = kernelName ext ResultName mapFunc' v' h'
   \<longleftrightarrow> uniqueName mapFunc = uniqueName mapFunc' \<and> v = v' \<and> h = h'"
proof
  assume "kernelName ext ResultName mapFunc v h = kernelName ext ResultName mapFunc' v' h'"
  then have "uniqueName mapFunc @ ''_Varity_'' @ decimal v @ ''_Harity_'' @ decimal h
      = uniqueName mapFunc' @ ''_Varity_'' @ decimal v' @ ''_Harity_'' @ decimal h'"
    unfolding kernelName_def by (simp only: same_append_eq)
  then show "uniqueName mapFunc = uniqueName mapFunc' \<and> v = v' \<and> h = h'"
    by (rule suffix_decimal_inj)
next
  assume "uniqueName mapFunc = uniqueName mapFunc' \<and> v = v' \<and> h = h'"
  then show "kernelName ext ResultName mapFunc v h = kernelName ext ResultName mapFunc' v' h'"
    by (simp add: kernelName_def)
qed

text \<open>
  C5. In one run of the tool (\<^verbatim>\<open>ResultName\<close> is a global option), two instantiations
  that differ in the unique name of the user function or in the pair of \<open>Varity\<close> and
  \<open>Harity\<close> get different kernel names, and equal inputs give equal names.
\<close>

theorem kernel_name_collision_free:
  "(uniqueName mapFunc \<noteq> uniqueName mapFunc' \<or> (varity, harity) \<noteq> (varity', harity') \<longrightarrow>
      kernelName ext ResultName mapFunc varity harity
        \<noteq> kernelName ext ResultName mapFunc' varity' harity')
   \<and> (uniqueName mapFunc = uniqueName mapFunc' \<and> varity = varity' \<and> harity = harity' \<longrightarrow>
      kernelName ext ResultName mapFunc varity harity
        = kernelName ext ResultName mapFunc' varity' harity')"
  using kernelName_inj [of ext ResultName mapFunc varity harity mapFunc' varity' harity']
  by auto

text \<open>
  The scenario "naming determinism", and the names of two functions and of two shapes.
\<close>

theorem kernel_name_collision_free_witness:
  "kernelName sample_externals ''prog'' pairwise_vector_map 2 3
     = ''prog_MapPairsKernel_f_Varity_2_Harity_3''
   \<and> kernelName sample_externals ''prog'' pairwise_vector_map 2 3
     = kernelName sample_externals ''prog'' pairwise_vector_map 2 3
   \<and> uniqueName pairwise_vector_map \<noteq> uniqueName indexed_function
   \<and> kernelName sample_externals ''prog'' pairwise_vector_map 2 3
     \<noteq> kernelName sample_externals ''prog'' indexed_function 2 3
   \<and> kernelName sample_externals ''prog'' pairwise_vector_map 2 3
     \<noteq> kernelName sample_externals ''prog'' pairwise_vector_map 3 2"
proof -
  have u: "uniqueName pairwise_vector_map \<noteq> uniqueName indexed_function"
    by (simp add: pairwise_vector_map_def indexed_function_def)
  have "kernelName sample_externals ''prog'' pairwise_vector_map 2 3
     = ''prog_MapPairsKernel_f_Varity_2_Harity_3''"
    by (simp add: kernelName_def sample_externals_def pairwise_vector_map_def decimal.simps
        digit_def)
  moreover have "kernelName sample_externals ''prog'' pairwise_vector_map 2 3
     \<noteq> kernelName sample_externals ''prog'' indexed_function 2 3"
    using u kernel_name_collision_free
      [of pairwise_vector_map indexed_function 2 3 2 3 sample_externals "''prog''"]
    by blast
  moreover have "kernelName sample_externals ''prog'' pairwise_vector_map 2 3
     \<noteq> kernelName sample_externals ''prog'' pairwise_vector_map 3 2"
    using kernel_name_collision_free
      [of pairwise_vector_map pairwise_vector_map 2 3 3 2 sample_externals "''prog''"]
    by simp
  ultimately show ?thesis
    using u by simp
qed

text \<open>
  C6, as stated: the wrapper would be named \<^verbatim>\<open>Wrapper_\<close> followed by the kernel name.
  The generator names it otherwise.
\<close>

theorem wrapper_class_name_counterexample:
  "className sample_externals ''prog'' pairwise_vector_map 2 3
     \<noteq> ''Wrapper_'' @ kernelName sample_externals ''prog'' pairwise_vector_map 2 3"
  by (simp add: className_def)

text \<open>
  C6, amended. The name of the wrapper class is \<^verbatim>\<open>CLWrapperClass_\<close> followed by the kernel
  name, the name the generator returns; it is the text that replaces
  \<^verbatim>\<open>SKEPU_KERNEL_CLASS\<close> in the wrapper template.
\<close>

theorem wrapper_class_name:
  "className ext ResultName mapFunc varity harity
     = ''CLWrapperClass_''
         @ returned
             (createMapPairsKernelProgram_CL ext ph replaceTextInString UserConstants ResultName
                mapFunc varity harity dir)
   \<and> (''SKEPU_KERNEL_CLASS'',
        ''CLWrapperClass_'' @ kernelName ext ResultName mapFunc varity harity)
       \<in> set (substitutions ext ph UserConstants ResultName mapFunc varity harity)"
  by (simp add: className_def createMapPairsKernelProgram_CL_def substitutions_def Let_def)

subsection \<open>The index initializer\<close>

lemma indexInitializer_build_streams:
  "indexInitializer (build_streams ext mapFunc) = indexInitializer (index_step mapFunc init_streams)"
proof -
  have "indexInitializer (build_streams ext mapFunc)
      = indexInitializer (foldl (container_step ext)
          (foldl (elwise_step mapFunc) (index_step mapFunc init_streams) (elwiseParams mapFunc))
          (anyContainerParams mapFunc))"
    unfolding build_streams_def by (rule foldl_preserves) (simp add: scalar_step_def)
  also have "\<dots> = indexInitializer
      (foldl (elwise_step mapFunc) (index_step mapFunc init_streams) (elwiseParams mapFunc))"
    by (rule foldl_preserves) (simp add: container_step_def)
  also have "\<dots> = indexInitializer (index_step mapFunc init_streams)"
    by (rule foldl_preserves) (simp add: elwise_step_def)
  finally show ?thesis .
qed

lemma index2_text:
  "\<not> indexed1D mapFunc \<Longrightarrow> indexed2D mapFunc \<Longrightarrow>
   indexInitializer (build_streams ext mapFunc)
     = ''index2_t index = { .row = (base + i) / w, .col = (base + i) % w };''"
  by (simp add: indexInitializer_build_streams index_step_def)

lemma index2_nat:
  fixes base i w :: "'a::len word"
  assumes "w \<noteq> 0" and "unat base + unat i < 2 ^ LENGTH('a)"
  shows "\<exists>r c. index2_initializer base i w = Some \<lparr>row = r, col = c\<rparr>
     \<and> unat r = (unat base + unat i) div unat w \<and> unat c = (unat base + unat i) mod unat w"
proof -
  have "unat (base + i) = unat base + unat i"
    using assms(2) by (simp add: unat_add_lem)
  then show ?thesis
    using assms(1) by (simp add: index2_initializer_def unat_div unat_mod)
qed

text \<open>
  C7. For a function with a two-dimensional index the generator emits the initializer
  \<^verbatim>\<open>index2_t index = { .row = (base + i) / w, .col = (base + i) % w };\<close>. The generated
  statement computes the quotient and the remainder of \<open>base + i\<close> by the row width
  \<open>w\<close>; for \<open>w = 4\<close>, \<open>base = 0\<close> and \<open>i = 5\<close> the row is 1 and the column is 1.
\<close>

theorem row_col_index_initializer:
  fixes base i w :: "'a::len word"
  shows "(\<not> indexed1D mapFunc \<and> indexed2D mapFunc \<longrightarrow>
            indexInitializer (build_streams ext mapFunc)
              = ''index2_t index = { .row = (base + i) / w, .col = (base + i) % w };'')
       \<and> (w \<noteq> 0 \<longrightarrow>
            index2_initializer base i w = Some \<lparr>row = (base + i) div w, col = (base + i) mod w\<rparr>)
       \<and> (w \<noteq> 0 \<and> unat base + unat i < 2 ^ LENGTH('a) \<longrightarrow>
            (\<exists>r c. index2_initializer base i w = Some \<lparr>row = r, col = c\<rparr>
               \<and> unat r = (unat base + unat i) div unat w
               \<and> unat c = (unat base + unat i) mod unat w))
       \<and> index2_initializer (0 :: 64 word) 5 4 = Some \<lparr>row = 1, col = 1\<rparr>"
proof -
  have "index2_initializer (0 :: 64 word) 5 4 = Some \<lparr>row = 1, col = 1\<rparr>"
    by (simp add: index2_initializer_def)
  moreover have "w \<noteq> 0 \<longrightarrow>
      index2_initializer base i w = Some \<lparr>row = (base + i) div w, col = (base + i) mod w\<rparr>"
    by (simp add: index2_initializer_def)
  ultimately show ?thesis
    using index2_text [of mapFunc ext] index2_nat [of w base i] by blast
qed

text \<open>
  The function with the two-dimensional index, and the scenario on 32-bit indices.
\<close>

theorem row_col_index_initializer_witness:
  "\<not> indexed1D indexed_function \<and> indexed2D indexed_function
   \<and> indexInitializer (build_streams sample_externals indexed_function)
       = ''index2_t index = { .row = (base + i) / w, .col = (base + i) % w };''
   \<and> (4 :: 32 word) \<noteq> 0 \<and> unat (0 :: 32 word) + unat (5 :: 32 word) < 2 ^ LENGTH(32)
   \<and> index2_initializer (0 :: 32 word) 5 4 = Some \<lparr>row = 1, col = 1\<rparr>"
proof -
  have f: "\<not> indexed1D indexed_function \<and> indexed2D indexed_function"
    by (simp add: indexed_function_def)
  have w: "(4 :: 32 word) \<noteq> 0" by simp
  note t = row_col_index_initializer [of indexed_function sample_externals "4 :: 32 word" 0 5]
  from t f have "indexInitializer (build_streams sample_externals indexed_function)
       = ''index2_t index = { .row = (base + i) / w, .col = (base + i) % w };''"
    by blast
  moreover from t w have "index2_initializer (0 :: 32 word) 5 4
      = Some \<lparr>row = (0 + 5) div 4, col = (0 + 5) mod 4\<rparr>"
    by blast
  ultimately show ?thesis
    using f by simp
qed

subsection \<open>The order of the kernel source\<close>

lemma types_single_container:
  "anyContainerParams mapFunc = [p] \<Longrightarrow>
   containerProxyTypes (build_streams ext mapFunc)
     = (\<lambda>_. [])(containerType p := [resolvedTypeName p])"
  by (simp add: types_build_streams_eq container_step_def types_before_containers
      set_insert_def)

text \<open>
  C8. When the function requires double precision, the kernel source written to
  \<^verbatim>\<open>sourceStream\<close> begins with the pragma that enables it; the proxy definitions, the user
  constants, the user types, the predefined types, the code of the user function and
  the kernel template follow in this order. With one matrix parameter the pragma is followed
  by the matrix proxy of its element type, and the kernel template comes after.
\<close>

theorem double_precision_pragma_first:
  "(requiresDoublePrecision mapFunc \<longrightarrow>
      sourceStream ext UserConstants mapFunc
        = ''#pragma OPENCL EXTENSION cl_khr_fp64: enable\<newline>''
          @ concat (emitted_proxies ext (containerProxyTypes (build_streams ext mapFunc)))
          @ concat (emitted_constants UserConstants)
          @ concat (map (generateUserTypeCode_CL ext) (ReferencedUTs mapFunc))
          @ KernelPredefinedTypes_CL ext
          @ generateUserFunctionCode_CL ext mapFunc
          @ MapPairsKernelTemplate_CL)
   \<and> (requiresDoublePrecision mapFunc \<and> anyContainerParams mapFunc = [p]
        \<and> containerType p = Matrix \<longrightarrow>
      sourceStream ext UserConstants mapFunc
        = ''#pragma OPENCL EXTENSION cl_khr_fp64: enable\<newline>''
          @ generateOpenCLMatrixProxy ext (resolvedTypeName p)
          @ concat (emitted_constants UserConstants)
          @ concat (map (generateUserTypeCode_CL ext) (ReferencedUTs mapFunc))
          @ KernelPredefinedTypes_CL ext
          @ generateUserFunctionCode_CL ext mapFunc
          @ MapPairsKernelTemplate_CL)"
proof -
  have "sourceStream ext UserConstants mapFunc
        = ''#pragma OPENCL EXTENSION cl_khr_fp64: enable\<newline>''
          @ generateOpenCLMatrixProxy ext (resolvedTypeName p)
          @ concat (emitted_constants UserConstants)
          @ concat (map (generateUserTypeCode_CL ext) (ReferencedUTs mapFunc))
          @ KernelPredefinedTypes_CL ext
          @ generateUserFunctionCode_CL ext mapFunc
          @ MapPairsKernelTemplate_CL"
    if "requiresDoublePrecision mapFunc" "anyContainerParams mapFunc = [p]"
      "containerType p = Matrix"
    using that by (simp add: sourceStream_def types_single_container emitted_proxies_def)
  then show ?thesis
    by (simp add: sourceStream_def)
qed

text \<open>The scenario "precision pragma ordering", no user constant declared.\<close>

theorem double_precision_pragma_first_witness:
  "requiresDoublePrecision double_matrix_function
   \<and> sourceStream sample_externals ([] :: (nat \<times> UserConstant) list) double_matrix_function
       = ''#pragma OPENCL EXTENSION cl_khr_fp64: enable\<newline>''
         @ ''matrix proxy of double\<newline>''
         @ ''predefined types\<newline>''
         @ ''code of h\<newline>''
         @ MapPairsKernelTemplate_CL"
proof -
  have h: "requiresDoublePrecision double_matrix_function
      \<and> anyContainerParams double_matrix_function
          = [\<lparr>name = ''m'', resolvedTypeName = ''double'', containerType = Matrix\<rparr>]
      \<and> containerType \<lparr>name = ''m'', resolvedTypeName = ''double'', containerType = Matrix\<rparr>
          = Matrix"
    by (simp add: double_matrix_function_def)
  from double_precision_pragma_first [THEN conjunct2, rule_format, OF h]
  have "sourceStream sample_externals ([] :: (nat \<times> UserConstant) list) double_matrix_function
      = ''#pragma OPENCL EXTENSION cl_khr_fp64: enable\<newline>''
        @ generateOpenCLMatrixProxy sample_externals ''double''
        @ concat (emitted_constants ([] :: (nat \<times> UserConstant) list))
        @ concat (map (generateUserTypeCode_CL sample_externals)
            (ReferencedUTs double_matrix_function))
        @ KernelPredefinedTypes_CL sample_externals
        @ generateUserFunctionCode_CL sample_externals double_matrix_function
        @ MapPairsKernelTemplate_CL"
    by simp
  then show ?thesis
    using h by (simp add: sample_externals_def double_matrix_function_def emitted_constants_def)
qed

subsection \<open>The user constants\<close>

text \<open>
  C9, as stated: the constants would be emitted in the order of their discovery. The
  generator iterates a \<^verbatim>\<open>std::unordered_map\<close>: a container that holds the constant
  \<^verbatim>\<open>PI\<close>, discovered first, and the constant \<^verbatim>\<open>N\<close>, discovered second, may iterate
  \<^verbatim>\<open>N\<close> first, and then \<^verbatim>\<open>N\<close> is emitted first.
\<close>

theorem user_constants_order_counterexample:
  "holds_discovered [(2 :: nat, size_constant), (1, pi_constant)]
       [(1, pi_constant), (2, size_constant)]
   \<and> emitted_constants [(2 :: nat, size_constant), (1, pi_constant)]
       \<noteq> [user_constant_define pi_constant, user_constant_define size_constant]"
  by (simp add: holds_discovered_def emitted_constants_def user_constant_define_def
      pi_constant_def size_constant_def)

text \<open>
  C9, amended. Every constant the container holds is emitted as one line
  \<^verbatim>\<open>#define name (definition) // typeName\<close>, in the order in which the container iterates
  its entries; the emitted lines are those of the discovered constants, each once, in some
  order; and they are part of the kernel source.
\<close>

theorem user_constants_emitted:
  "emitted_constants UserConstants
     = map (\<lambda>pair. ''#define '' @ const_name (snd pair) @ '' ('' @ definition_text (snd pair)
         @ '') // '' @ typeName (snd pair) @ ''\<newline>'') UserConstants
   \<and> (holds_discovered UserConstants discovered \<longrightarrow>
        mset (emitted_constants UserConstants)
          = mset (map (\<lambda>pair. user_constant_define (snd pair)) discovered))
   \<and> (\<exists>before after.
        sourceStream ext UserConstants mapFunc
          = before @ concat (emitted_constants UserConstants) @ after)"
proof -
  have "mset (emitted_constants UserConstants)
      = mset (map (\<lambda>pair. user_constant_define (snd pair)) discovered)"
    if "holds_discovered UserConstants discovered"
  proof -
    from that have "mset UserConstants = mset discovered"
      by (simp add: holds_discovered_def)
    then have "image_mset (\<lambda>pair. user_constant_define (snd pair)) (mset UserConstants)
        = image_mset (\<lambda>pair. user_constant_define (snd pair)) (mset discovered)"
      by simp
    then show ?thesis
      by (simp add: emitted_constants_def)
  qed
  moreover have "\<exists>before after.
        sourceStream ext UserConstants mapFunc
          = before @ concat (emitted_constants UserConstants) @ after"
    unfolding sourceStream_def by (metis append.assoc)
  ultimately show ?thesis
    by (simp add: emitted_constants_def user_constant_define_def)
qed

text \<open>The container of the counterexample: both constants emitted, \<^verbatim>\<open>N\<close> first.\<close>

theorem user_constants_emitted_witness:
  "holds_discovered [(2 :: nat, size_constant), (1, pi_constant)]
       [(1, pi_constant), (2, size_constant)]
   \<and> emitted_constants [(2 :: nat, size_constant), (1, pi_constant)]
       = [''#define N (16) // int\<newline>'', ''#define PI (3.14f) // float\<newline>'']
   \<and> mset (emitted_constants [(2 :: nat, size_constant), (1, pi_constant)])
       = mset (map (\<lambda>pair. user_constant_define (snd pair))
           [(1 :: nat, pi_constant), (2, size_constant)])"
proof -
  have h: "holds_discovered [(2 :: nat, size_constant), (1, pi_constant)]
       [(1, pi_constant), (2, size_constant)]"
    by (simp add: holds_discovered_def)
  have "emitted_constants [(2 :: nat, size_constant), (1, pi_constant)]
       = [''#define N (16) // int\<newline>'', ''#define PI (3.14f) // float\<newline>'']"
    by (simp add: emitted_constants_def user_constant_define_def pi_constant_def
        size_constant_def)
  with h user_constants_emitted
    [of "[(2 :: nat, size_constant), (1, pi_constant)]" "[(1, pi_constant), (2, size_constant)]"]
  show ?thesis by blast
qed

subsection \<open>The wrapper class\<close>

lemma build_all_in_bounds:
  assumes "\<forall>d\<in>set devices. create d = Inr (handle d)"
    and "counter + length devices \<le> 8" and "length (arr s) = 8"
  shows "\<exists>s'. build_all create devices counter s = Inr s'
     \<and> initialized s' = initialized s
     \<and> arr s' = take counter (arr s) @ map handle devices
         @ drop (counter + length devices) (arr s)"
  using assms
proof (induction devices arbitrary: counter s)
  case Nil
  then show ?case by simp
next
  case (Cons d devices)
  let ?s = "s\<lparr>arr := (arr s)[counter := handle d]\<rparr>"
  from Cons.prems have c: "counter < 8" and cr: "create d = Inr (handle d)" by simp_all
  have "\<exists>s'. build_all create devices (Suc counter) ?s = Inr s'
     \<and> initialized s' = initialized ?s
     \<and> arr s' = take (Suc counter) (arr ?s) @ map handle devices
         @ drop (Suc counter + length devices) (arr ?s)"
    using Cons.prems by (intro Cons.IH) simp_all
  then obtain s' where s': "build_all create devices (Suc counter) ?s = Inr s'"
    "initialized s' = initialized s"
    "arr s' = take (Suc counter) (arr ?s) @ map handle devices
         @ drop (Suc counter + length devices) (arr ?s)"
    by auto
  have "take (Suc counter) ((arr s)[counter := handle d]) = take counter (arr s) @ [handle d]"
    using c Cons.prems(3) by (simp add: take_Suc_conv_app_nth)
  with s' c cr show ?case
    by (simp add: kernels_store_def)
qed

lemma build_all_out_of_bounds:
  assumes "\<forall>d\<in>set devices. create d = Inr (handle d)"
    and "8 < counter + length devices" and "counter \<le> 8"
  shows "build_all create devices counter s = Inl OutOfBounds"
  using assms
proof (induction devices arbitrary: counter s)
  case Nil
  then show ?case by simp
next
  case (Cons d devices)
  show ?case
  proof (cases "counter < 8")
    case False
    with Cons.prems show ?thesis by (simp add: kernels_store_def)
  next
    case True
    with Cons.prems Cons.IH [of "Suc counter"] show ?thesis
      by (simp add: kernels_store_def)
  qed
qed

text \<open>
  C10. Let every device build its kernel. With at most eight devices, the first call of
  \<^verbatim>\<open>initialize\<close> stays within the table, stores the handle of the \<open>j\<close>-th device at
  ordinal \<open>j\<close>, leaves the other slots as they were and sets the flag; every further
  call, whatever the devices registered then and whatever their builds give, returns the
  state unchanged. With more than eight devices the first call stores out of
  bounds, as does every store at an ordinal of eight or more: \<^verbatim>\<open>kernels\<close> checks no bound.
\<close>

theorem initialize_idempotent:
  assumes "\<forall>d\<in>set devices. create d = Inr (handle d)"
    and "length (arr s) = 8" and "\<not> initialized s"
  shows "(length devices \<le> 8 \<longrightarrow>
           (\<exists>s'. initialize create devices s = Inr s'
              \<and> initialized s'
              \<and> arr s' = map handle devices @ drop (length devices) (arr s)
              \<and> (\<forall>j < length devices. kernels s' j = Inr (handle (devices ! j)))
              \<and> initialize create devices s' = Inr s'
              \<and> (\<forall>create' devices'. initialize create' devices' s' = Inr s')))
       \<and> (8 < length devices \<longrightarrow> initialize create devices s = Inl OutOfBounds)
       \<and> (8 \<le> deviceID \<longrightarrow> kernels_store s deviceID k = Inl OutOfBounds)"
proof -
  have a: "\<exists>s'. initialize create devices s = Inr s'
              \<and> initialized s'
              \<and> arr s' = map handle devices @ drop (length devices) (arr s)
              \<and> (\<forall>j < length devices. kernels s' j = Inr (handle (devices ! j)))
              \<and> initialize create devices s' = Inr s'
              \<and> (\<forall>create' devices'. initialize create' devices' s' = Inr s')"
    if le: "length devices \<le> 8"
  proof -
    from build_all_in_bounds [OF assms(1), of 0 s] le assms(2)
    obtain t where t: "build_all create devices 0 s = Inr t"
      "arr t = map handle devices @ drop (length devices) (arr s)"
      by auto
    let ?s' = "t\<lparr>initialized := True\<rparr>"
    have "initialize create devices s = Inr ?s'"
      using assms(3) t(1) by (simp add: initialize_def)
    moreover have "initialized ?s'" by simp
    moreover have "arr ?s' = map handle devices @ drop (length devices) (arr s)"
      using t(2) by simp
    moreover have "\<forall>j < length devices. kernels ?s' j = Inr (handle (devices ! j))"
      using le t(2) by (auto simp add: kernels_def nth_append)
    moreover have "initialize create devices ?s' = Inr ?s'"
      by (simp add: initialize_def)
    moreover have "\<forall>create' devices'. initialize create' devices' ?s' = Inr ?s'"
      by (simp add: initialize_def)
    ultimately show ?thesis by blast
  qed
  have b: "initialize create devices s = Inl OutOfBounds" if "8 < length devices"
    using build_all_out_of_bounds [OF assms(1), of 0 s] that assms(3)
    by (simp add: initialize_def)
  have c: "kernels_store s deviceID k = Inl OutOfBounds" if "8 \<le> deviceID"
    using that by (simp add: kernels_store_def)
  from a b c show ?thesis by blast
qed

text \<open>
  Three devices on the initial table, a second call with the same devices and one with four
  other devices; then nine devices on the initial table.
\<close>

theorem initialize_idempotent_witness:
  "initialize sample_create [1, 2, 3] (initial_state 0)
     = Inr \<lparr>arr = [101, 102, 103, 0, 0, 0, 0, 0], initialized = True\<rparr>
   \<and> initialize sample_create [1, 2, 3]
       \<lparr>arr = [101, 102, 103, 0, 0, 0, 0, 0], initialized = True\<rparr>
     = Inr \<lparr>arr = [101, 102, 103, 0, 0, 0, 0, 0], initialized = True\<rparr>
   \<and> initialize sample_create [7, 8, 9, 10]
       \<lparr>arr = [101, 102, 103, 0, 0, 0, 0, 0], initialized = True\<rparr>
     = Inr \<lparr>arr = [101, 102, 103, 0, 0, 0, 0, 0], initialized = True\<rparr>
   \<and> initialize sample_create [1, 2, 3, 4, 5, 6, 7, 8, 9] (initial_state 0) = Inl OutOfBounds
   \<and> kernels_store (initial_state 0) 8 (109 :: nat) = Inl OutOfBounds"
proof -
  have c: "\<forall>d\<in>set devices. sample_create d = Inr (100 + d)" for devices
    by (simp add: sample_create_def)
  have s: "length (arr (initial_state (0 :: nat))) = 8" "\<not> initialized (initial_state (0 :: nat))"
    by (simp_all add: initial_state_def)
  have arr0: "arr (initial_state (0 :: nat)) = [0, 0, 0, 0, 0, 0, 0, 0]"
    by (simp add: initial_state_def numeral_eq_Suc)
  from initialize_idempotent [OF c s, of "[1, 2, 3]" 8 109]
  obtain s' where s': "initialize sample_create [1, 2, 3] (initial_state 0) = Inr s'"
    "initialized s'" "arr s' = [101, 102, 103, 0, 0, 0, 0, 0]"
    "initialize sample_create [1, 2, 3] s' = Inr s'"
    "initialize sample_create [7, 8, 9, 10] s' = Inr s'"
    and store: "kernels_store (initial_state 0) 8 (109 :: nat) = Inl OutOfBounds"
    by (auto simp add: arr0)
  from s'(2, 3) have eq: "\<lparr>arr = [101, 102, 103, 0, 0, 0, 0, 0], initialized = True\<rparr> = s'"
    by (cases s') simp
  from initialize_idempotent [OF c s, of "[1, 2, 3, 4, 5, 6, 7, 8, 9]" 8 109]
  have "initialize sample_create [1, 2, 3, 4, 5, 6, 7, 8, 9] (initial_state 0) = Inl OutOfBounds"
    by simp
  with s'(1, 4, 5) store show ?thesis
    unfolding eq by simp
qed

end
